theory Spec2Isabelle
  imports Complex_Main
begin

section \<open>Python values, exceptions and the objects stored in a session\<close>

text \<open>
  The cart of \<^verbatim>\<open>carton/cart.py\<close> is modelled function by function. The exceptions
  the code can raise are values of \<open>error\<close>; a call that can raise returns a sum with the
  exception on the left.
\<close>

datatype error =
  ValueError | TypeError | AttributeError | KeyError | IndexError | NameError | DoesNotExist

text \<open>
  The plain values of the model are the ones a session serializer stores and a caller
  passes as a quantity: \<^verbatim>\<open>None\<close>, numbers, strings and lists. A number is kept by its
  value: \<^verbatim>\<open>True\<close>, \<^verbatim>\<open>1\<close> and \<^verbatim>\<open>1.0\<close> are the same \<open>PNum 1\<close>, since \<^verbatim>\<open>int()\<close>, \<^verbatim>\<open>==\<close>,
  \<^verbatim>\<open>hash\<close> and \<^verbatim>\<open><\<close>, the only operations the cart applies to a number, do not tell them
  apart. The floats \<^verbatim>\<open>inf\<close> and \<^verbatim>\<open>nan\<close>, characters beyond ASCII and a \<^verbatim>\<open>dict\<close> nested
  inside a record are not modelled.
\<close>

datatype pyval = PNone | PNum rat | PStr string | PList "pyval list"

definition PInt :: "int \<Rightarrow> pyval" where
  "PInt n = PNum (of_int n)"

definition PBool :: "bool \<Rightarrow> pyval" where
  "PBool b = PNum (if b then 1 else 0)"

text \<open>
  A record of the stored cart representation is a \<^verbatim>\<open>dict\<close> with string keys (\<open>Dict\<close>),
  which is what \<^verbatim>\<open>CartItem.to_dict\<close> builds, or a plain value (\<open>Plain\<close>). A product or an
  option passed to the cart is an entity of the persistence layer (\<open>Ent\<close>) or, when the
  caller passes something else, a plain value (\<open>Val\<close>).
\<close>

datatype pyobj = Dict "(string \<times> pyval) list" | Plain pyval

record entity =
  pk :: int
  price :: int

datatype ref = Ent entity | Val pyval

text \<open>
  \<^verbatim>\<open>o.name\<close> on a stored record, for the names the cart reads there (\<^verbatim>\<open>product_pk\<close>,
  \<^verbatim>\<open>option_pks\<close>): neither a \<^verbatim>\<open>dict\<close> nor a plain value has such an attribute.
\<close>

fun getattr :: "pyobj \<Rightarrow> string \<Rightarrow> error + pyval" where
  "getattr (Dict kvs) name = Inl AttributeError"
| "getattr (Plain v) name = Inl AttributeError"

text \<open>\<^verbatim>\<open>o['key']\<close> with a string key: only a \<^verbatim>\<open>dict\<close> answers it.\<close>

fun getitem :: "pyobj \<Rightarrow> string \<Rightarrow> error + pyval" where
  "getitem (Dict kvs) key = (case map_of kvs key of None \<Rightarrow> Inl KeyError | Some v \<Rightarrow> Inr v)"
| "getitem (Plain v) key = Inl TypeError"

text \<open>\<^verbatim>\<open>r.pk\<close> and \<^verbatim>\<open>r.price\<close> on a product or an option.\<close>

fun ref_pk :: "ref \<Rightarrow> error + int" where
  "ref_pk (Ent e) = Inr (pk e)"
| "ref_pk (Val v) = Inl AttributeError"

fun ref_price :: "ref \<Rightarrow> error + int" where
  "ref_price (Ent e) = Inr (price e)"
| "ref_price (Val v) = Inl AttributeError"

fun is_Ent :: "ref \<Rightarrow> bool" where
  "is_Ent (Ent e) = True"
| "is_Ent (Val v) = False"

text \<open>A list comprehension \<^verbatim>\<open>[f(x) for x in xs]\<close>: the first exception ends it.\<close>

fun comprehension :: "('a \<Rightarrow> error + 'b) \<Rightarrow> 'a list \<Rightarrow> error + 'b list" where
  "comprehension f [] = Inr []"
| "comprehension f (x # xs) =
     (case f x of
        Inl ex \<Rightarrow> Inl ex
      | Inr y \<Rightarrow> (case comprehension f xs of Inl ex \<Rightarrow> Inl ex | Inr ys \<Rightarrow> Inr (y # ys)))"

subsection \<open>\<^verbatim>\<open>int()\<close>\<close>

text \<open>
  \<^verbatim>\<open>int(s)\<close> on a string: white space around it is dropped, then come an optional sign
  and decimal digits, with single underscores allowed between digits.
\<close>

definition is_space :: "char \<Rightarrow> bool" where
  "is_space c = (let n = (of_char c :: nat) in (9 \<le> n \<and> n \<le> 13) \<or> (28 \<le> n \<and> n \<le> 32))"

definition is_digit :: "char \<Rightarrow> bool" where
  "is_digit c = (let n = (of_char c :: nat) in 48 \<le> n \<and> n \<le> 57)"

definition digit_val :: "char \<Rightarrow> nat" where
  "digit_val c = of_char c - 48"

definition strip :: "string \<Rightarrow> string" where
  "strip s = rev (dropWhile is_space (rev (dropWhile is_space s)))"

fun int_body :: "string \<Rightarrow> nat \<Rightarrow> nat option" where
  "int_body [] acc = Some acc"
| "int_body [c] acc = (if is_digit c then Some (10 * acc + digit_val c) else None)"
| "int_body (c # d # cs) acc =
     (if is_digit c then int_body (d # cs) (10 * acc + digit_val c)
      else if c = CHR ''_'' \<and> is_digit d then int_body (d # cs) acc
      else None)"

definition int_digits :: "string \<Rightarrow> nat option" where
  "int_digits s =
     (case s of
        [] \<Rightarrow> None
      | c # cs \<Rightarrow> if is_digit c then int_body cs (digit_val c) else None)"

definition parse_int :: "string \<Rightarrow> int option" where
  "parse_int s =
     (case strip s of
        [] \<Rightarrow> None
      | c # cs \<Rightarrow>
          if c = CHR ''-'' then map_option (\<lambda>n. - int n) (int_digits cs)
          else if c = CHR ''+'' then map_option int (int_digits cs)
          else map_option int (int_digits (c # cs)))"

text \<open>\<^verbatim>\<open>int(x)\<close> on a number truncates towards zero.\<close>

definition py_trunc :: "rat \<Rightarrow> int" where
  "py_trunc q = (if 0 \<le> q then \<lfloor>q\<rfloor> else \<lceil>q\<rceil>)"

fun py_int :: "pyval \<Rightarrow> error + int" where
  "py_int (PNum q) = Inr (py_trunc q)"
| "py_int (PStr s) = (case parse_int s of None \<Rightarrow> Inl ValueError | Some n \<Rightarrow> Inr n)"
| "py_int (PList vs) = Inl TypeError"
| "py_int PNone = Inl TypeError"

subsection \<open>Iteration, hashing, comparison and \<^verbatim>\<open>sorted\<close>\<close>

text \<open>\<^verbatim>\<open>for x in v\<close>: the elements of a list, the characters of a string, or \<^verbatim>\<open>TypeError\<close>
  when \<open>v\<close> is not iterable.\<close>

fun py_iter :: "pyval \<Rightarrow> error + pyval list" where
  "py_iter (PList vs) = Inr vs"
| "py_iter (PStr s) = Inr (map (\<lambda>c. PStr [c]) s)"
| "py_iter (PNum q) = Inl TypeError"
| "py_iter PNone = Inl TypeError"

text \<open>A list is not hashable, so it cannot be looked up in a \<^verbatim>\<open>dict\<close>.\<close>

fun hashable :: "pyval \<Rightarrow> bool" where
  "hashable (PList vs) = False"
| "hashable (PNum q) = True"
| "hashable (PStr s) = True"
| "hashable PNone = True"

text \<open>
  \<^verbatim>\<open>a < b\<close>: numbers by value, strings by their characters, lists by the first position
  where they differ; anything else is not ordered and raises \<^verbatim>\<open>TypeError\<close>.
\<close>

fun str_lt :: "string \<Rightarrow> string \<Rightarrow> bool" where
  "str_lt [] [] = False"
| "str_lt [] (d # ds) = True"
| "str_lt (c # cs) [] = False"
| "str_lt (c # cs) (d # ds) =
     (if c = d then str_lt cs ds else (of_char c :: nat) < of_char d)"

fun py_lt :: "pyval \<Rightarrow> pyval \<Rightarrow> error + bool"
  and py_lt_list :: "pyval list \<Rightarrow> pyval list \<Rightarrow> error + bool" where
  "py_lt (PNum a) (PNum b) = Inr (a < b)"
| "py_lt (PStr s) (PStr t) = Inr (str_lt s t)"
| "py_lt (PList xs) (PList ys) = py_lt_list xs ys"
| "py_lt a b = Inl TypeError"
| "py_lt_list [] [] = Inr False"
| "py_lt_list [] (y # ys) = Inr True"
| "py_lt_list (x # xs) [] = Inr False"
| "py_lt_list (x # xs) (y # ys) = (if x = y then py_lt_list xs ys else py_lt x y)"

text \<open>
  \<^verbatim>\<open>sorted(v)\<close>: a stable sort of the elements of \<open>v\<close> by \<^verbatim>\<open><\<close>, here by insertion; a
  comparison that raises ends it. A list of at most one element needs no comparison.
\<close>

fun py_insert :: "pyval \<Rightarrow> pyval list \<Rightarrow> error + pyval list" where
  "py_insert x [] = Inr [x]"
| "py_insert x (y # ys) =
     (case py_lt x y of
        Inl ex \<Rightarrow> Inl ex
      | Inr lt \<Rightarrow>
          if lt then Inr (x # y # ys)
          else (case py_insert x ys of Inl ex \<Rightarrow> Inl ex | Inr zs \<Rightarrow> Inr (y # zs)))"

fun py_sort :: "pyval list \<Rightarrow> pyval list \<Rightarrow> error + pyval list" where
  "py_sort [] acc = Inr acc"
| "py_sort (x # xs) acc =
     (case py_insert x acc of Inl ex \<Rightarrow> Inl ex | Inr acc' \<Rightarrow> py_sort xs acc')"

definition py_sorted :: "pyval \<Rightarrow> error + pyval list" where
  "py_sorted v = (case py_iter v of Inl ex \<Rightarrow> Inl ex | Inr xs \<Rightarrow> py_sort xs [])"

subsection \<open>Lists and names\<close>

text \<open>\<^verbatim>\<open>xs[i]\<close>, \<^verbatim>\<open>xs[i].attr = ...\<close> and \<^verbatim>\<open>del xs[i]\<close> on a Python list: a negative index
  counts from the end, an index out of range raises \<^verbatim>\<open>IndexError\<close>.\<close>

definition norm_index :: "'a list \<Rightarrow> int \<Rightarrow> error + nat" where
  "norm_index xs i =
     (let n = int (length xs); j = (if i < 0 then n + i else i)
      in if 0 \<le> j \<and> j < n then Inr (nat j) else Inl IndexError)"

definition list_get :: "'a list \<Rightarrow> int \<Rightarrow> error + 'a" where
  "list_get xs i = (case norm_index xs i of Inl e \<Rightarrow> Inl e | Inr j \<Rightarrow> Inr (xs ! j))"

definition list_modify :: "'a list \<Rightarrow> int \<Rightarrow> ('a \<Rightarrow> 'a) \<Rightarrow> error + 'a list" where
  "list_modify xs i f =
     (case norm_index xs i of Inl e \<Rightarrow> Inl e | Inr j \<Rightarrow> Inr (xs[j := f (xs ! j)]))"

definition list_del :: "'a list \<Rightarrow> int \<Rightarrow> error + 'a list" where
  "list_del xs i =
     (case norm_index xs i of Inl e \<Rightarrow> Inl e | Inr j \<Rightarrow> Inr (take j xs @ drop (Suc j) xs))"

text \<open>
  Loading a name that is neither a local variable nor a global of the module raises
  \<^verbatim>\<open>NameError\<close>. A scope lists the names bound to a value of the type wanted.
\<close>

definition load_name :: "(string \<times> 'a) list \<Rightarrow> string \<Rightarrow> error + 'a" where
  "load_name scope name = (case map_of scope name of None \<Rightarrow> Inl NameError | Some v \<Rightarrow> Inr v)"

section \<open>The external collaborators\<close>

text \<open>
  The modules \<^verbatim>\<open>carton.settings\<close> and \<^verbatim>\<open>carton.module_loading\<close> and the Django querysets
  are not part of the source file; they are the parameters \<open>env\<close>: the default session
  key, and for each of the two filtered querysets what \<^verbatim>\<open>queryset.get(pk=v)\<close> returns or
  raises for a value \<open>v\<close>.
\<close>

record env =
  CART_SESSION_KEY :: string
  product_get :: "pyval \<Rightarrow> error + entity"
  option_get :: "pyval \<Rightarrow> error + entity"

section \<open>CartItem\<close>

record CartItem =
  product :: ref
  options :: "ref list"
  quantity :: int

text \<open>\<^verbatim>\<open>CartItem(product, options, quantity)\<close>: the constructor coerces the quantity.\<close>

definition CartItem_init :: "ref \<Rightarrow> ref list \<Rightarrow> pyval \<Rightarrow> error + CartItem" where
  "CartItem_init prd opts qv =
     (case py_int qv of
        Inl e \<Rightarrow> Inl e
      | Inr q \<Rightarrow> Inr \<lparr>product = prd, options = opts, quantity = q\<rparr>)"

text \<open>\<^verbatim>\<open>to_dict\<close> reads \<^verbatim>\<open>self.product.pk\<close> and then \<^verbatim>\<open>i.pk\<close> of every option.\<close>

definition to_dict :: "CartItem \<Rightarrow> error + pyobj" where
  "to_dict self =
     (case ref_pk (product self) of
        Inl ex \<Rightarrow> Inl ex
      | Inr product_pk \<Rightarrow>
          (case comprehension ref_pk (options self) of
             Inl ex \<Rightarrow> Inl ex
           | Inr option_pks \<Rightarrow>
               Inr (Dict [(''product_pk'', PInt product_pk),
                          (''option_pks'', PList (map PInt option_pks)),
                          (''quantity'', PInt (quantity self))])))"

definition subtotal :: "CartItem \<Rightarrow> error + int" where
  "subtotal self =
     (case ref_price (product self) of
        Inl ex \<Rightarrow> Inl ex
      | Inr p \<Rightarrow>
          (case comprehension ref_price (options self) of
             Inl ex \<Rightarrow> Inl ex
           | Inr ps \<Rightarrow> Inr ((p + sum_list ps) * quantity self)))"

section \<open>The session and the cart\<close>

text \<open>
  A session maps keys to stored values and carries the \<^verbatim>\<open>modified\<close> flag. A stored value
  is one whose iteration yields a sequence of records (\<open>SList\<close>) or a value that cannot
  be iterated (\<open>SOpaque\<close>).
\<close>

datatype sval = SList "pyobj list" | SOpaque

record Session =
  data :: "string \<rightharpoonup> sval"
  modified :: bool

record Cart =
  items_dict :: "CartItem list"
  session :: Session
  session_key :: string

definition items :: "Cart \<Rightarrow> CartItem list" where
  "items self = items_dict self"

definition cart_serializable :: "Cart \<Rightarrow> error + pyobj list" where
  "cart_serializable self = comprehension to_dict (items self)"

text \<open>\<^verbatim>\<open>update_session\<close> evaluates \<^verbatim>\<open>self.cart_serializable\<close> first; when that raises,
  the session is not written.\<close>

definition update_session :: "Cart \<Rightarrow> (error + unit) \<times> Cart" where
  "update_session self =
     (case cart_serializable self of
        Inl ex \<Rightarrow> (Inl ex, self)
      | Inr ds \<Rightarrow>
          (Inr (), self\<lparr>session := (session self)
             \<lparr>data := (data (session self))(session_key self \<mapsto> SList ds),
              modified := True\<rparr>\<rparr>))"

subsection \<open>Construction: the rebuild from the session\<close>

text \<open>The product of one record, through the cache of this construction.\<close>

definition resolve_product ::
  "env \<Rightarrow> pyobj \<Rightarrow> (pyval \<rightharpoonup> entity) \<Rightarrow> (error + entity) \<times> (pyval \<rightharpoonup> entity)" where
  "resolve_product e item products_cache =
     (case getattr item ''product_pk'' of
        Inl ex \<Rightarrow> (Inl ex, products_cache)
      | Inr product_pk \<Rightarrow>
          if \<not> hashable product_pk then (Inl TypeError, products_cache)
          else (case products_cache product_pk of
                  Some prd \<Rightarrow> (Inr prd, products_cache)
                | None \<Rightarrow>
                    (case product_get e product_pk of
                       Inl ex \<Rightarrow> (Inl ex, products_cache)
                     | Inr prd \<Rightarrow> (Inr prd, products_cache(product_pk \<mapsto> prd)))))"

text \<open>The inner loop over \<^verbatim>\<open>item.option_pks\<close>; \<open>opts\<close> is the list built so far.\<close>

fun resolve_options ::
  "env \<Rightarrow> pyval list \<Rightarrow> (pyval \<rightharpoonup> entity) \<Rightarrow> entity list
     \<Rightarrow> (error + entity list) \<times> (pyval \<rightharpoonup> entity)" where
  "resolve_options e [] options_cache opts = (Inr opts, options_cache)"
| "resolve_options e (option_pk # rest) options_cache opts =
     (if \<not> hashable option_pk then (Inl TypeError, options_cache)
      else (case options_cache option_pk of
              Some opt \<Rightarrow> resolve_options e rest options_cache (opts @ [opt])
            | None \<Rightarrow>
                (case option_get e option_pk of
                   Inl ex \<Rightarrow> (Inl ex, options_cache)
                 | Inr opt \<Rightarrow>
                     resolve_options e rest (options_cache(option_pk \<mapsto> opt)) (opts @ [opt]))))"

text \<open>
  The body of the \<^verbatim>\<open>try\<close>: the item built from one record, or the exception raised on
  the way, with the two caches as they are at that point.
\<close>

definition rebuild_record ::
  "env \<Rightarrow> pyobj \<Rightarrow> (pyval \<rightharpoonup> entity) \<Rightarrow> (pyval \<rightharpoonup> entity)
     \<Rightarrow> (error + CartItem) \<times> (pyval \<rightharpoonup> entity) \<times> (pyval \<rightharpoonup> entity)" where
  "rebuild_record e item products_cache options_cache =
     (case resolve_product e item products_cache of
        (Inl ex, pc) \<Rightarrow> (Inl ex, pc, options_cache)
      | (Inr prd, pc) \<Rightarrow>
          (case getattr item ''option_pks'' of
             Inl ex \<Rightarrow> (Inl ex, pc, options_cache)
           | Inr option_pks \<Rightarrow>
               (case py_iter option_pks of
                  Inl ex \<Rightarrow> (Inl ex, pc, options_cache)
                | Inr pks \<Rightarrow>
                    (case resolve_options e pks options_cache [] of
                       (Inl ex, oc) \<Rightarrow> (Inl ex, pc, oc)
                     | (Inr opts, oc) \<Rightarrow>
                         (case getitem item ''quantity'' of
                            Inl ex \<Rightarrow> (Inl ex, pc, oc)
                          | Inr qv \<Rightarrow>
                              (case CartItem_init (Ent prd) (map Ent opts) qv of
                                 Inl ex \<Rightarrow> (Inl ex, pc, oc)
                               | Inr ci \<Rightarrow> (Inr ci, pc, oc)))))))"

text \<open>
  The loop over the stored records. \<^verbatim>\<open>except Exception\<close> catches whatever the body
  raised (and prints it); the loop goes on with the next record.
\<close>

fun rebuild_loop ::
  "env \<Rightarrow> pyobj list \<Rightarrow> (pyval \<rightharpoonup> entity) \<Rightarrow> (pyval \<rightharpoonup> entity) \<Rightarrow> CartItem list
     \<Rightarrow> CartItem list" where
  "rebuild_loop e [] products_cache options_cache its = its"
| "rebuild_loop e (item # rest) products_cache options_cache its =
     (case rebuild_record e item products_cache options_cache of
        (Inl ex, pc, oc) \<Rightarrow> rebuild_loop e rest pc oc its
      | (Inr ci, pc, oc) \<Rightarrow> rebuild_loop e rest pc oc (its @ [ci]))"

text \<open>\<^verbatim>\<open>session_key or carton_settings.CART_SESSION_KEY\<close>: \<^verbatim>\<open>None\<close> and the empty string
  are false.\<close>

definition the_session_key :: "env \<Rightarrow> string option \<Rightarrow> string" where
  "the_session_key e session_key_arg =
     (case session_key_arg of
        None \<Rightarrow> CART_SESSION_KEY e
      | Some k \<Rightarrow> if k = [] then CART_SESSION_KEY e else k)"

definition Cart_init :: "env \<Rightarrow> Session \<Rightarrow> string option \<Rightarrow> error + Cart" where
  "Cart_init e sess session_key_arg =
     (let key = the_session_key e session_key_arg;
          self = \<lparr>items_dict = [], session = sess, session_key = key\<rparr>
      in case data sess key of
           None \<Rightarrow> Inr self
         | Some SOpaque \<Rightarrow> Inl TypeError
         | Some (SList cart_representation) \<Rightarrow>
             Inr (self\<lparr>items_dict :=
                    rebuild_loop e cart_representation Map.empty Map.empty []\<rparr>))"

subsection \<open>Identity lookup\<close>

text \<open>
  \<^verbatim>\<open>__index__\<close>: the loop \<^verbatim>\<open>for i in range(len(cart_items))\<close>; the first argument is
  \<^verbatim>\<open>cart_items[i:]\<close>. In each comparison the left operand is evaluated first.
\<close>

fun index_loop :: "pyobj list \<Rightarrow> nat \<Rightarrow> ref \<Rightarrow> ref list \<Rightarrow> error + int" where
  "index_loop [] i prd opts = Inr (- 1)"
| "index_loop (d # ds) i prd opts =
     (case getattr d ''product_pk'' of
        Inl ex \<Rightarrow> Inl ex
      | Inr product_pk \<Rightarrow>
          (case ref_pk prd of
             Inl ex \<Rightarrow> Inl ex
           | Inr prd_pk \<Rightarrow>
               if product_pk = PInt prd_pk then
                 (case getattr d ''option_pks'' of
                    Inl ex \<Rightarrow> Inl ex
                  | Inr option_pks \<Rightarrow>
                      (case py_sorted option_pks of
                         Inl ex \<Rightarrow> Inl ex
                       | Inr sorted_pks \<Rightarrow>
                           (case comprehension ref_pk opts of
                              Inl ex \<Rightarrow> Inl ex
                            | Inr opt_pks \<Rightarrow>
                                if sorted_pks = map PInt (sort opt_pks) then Inr (int i)
                                else index_loop ds (Suc i) prd opts)))
               else index_loop ds (Suc i) prd opts))"

definition index :: "Cart \<Rightarrow> ref \<Rightarrow> ref list \<Rightarrow> error + int" where
  "index self prd opts =
     (case cart_serializable self of
        Inl ex \<Rightarrow> Inl ex
      | Inr cart_items \<Rightarrow> index_loop cart_items 0 prd opts)"

subsection \<open>Mutations\<close>

text \<open>
  A mutation returns what the call did (\<open>Inr ()\<close> when it returned, \<open>Inl ex\<close> when it
  raised \<open>ex\<close>) together with the cart as it is at that moment: an exception does not
  undo what was changed before it.
\<close>

definition add :: "ref \<Rightarrow> ref list \<Rightarrow> pyval \<Rightarrow> Cart \<Rightarrow> (error + unit) \<times> Cart" where
  "add prd opts qarg self =
     (case py_int qarg of
        Inl ex \<Rightarrow> (Inl ex, self)
      | Inr qty \<Rightarrow>
          if qty < 1 then (Inl ValueError, self)
          else (case index self prd opts of
                  Inl ex \<Rightarrow> (Inl ex, self)
                | Inr item_index \<Rightarrow>
                    if item_index \<noteq> - 1 then
                      (case list_modify (items_dict self) item_index
                              (\<lambda>it. it\<lparr>quantity := quantity it + qty\<rparr>) of
                         Inl ex \<Rightarrow> (Inl ex, self)
                       | Inr its \<Rightarrow> update_session (self\<lparr>items_dict := its\<rparr>))
                    else
                      (case CartItem_init prd opts (PInt qty) of
                         Inl ex \<Rightarrow> (Inl ex, self)
                       | Inr ci \<Rightarrow>
                           update_session (self\<lparr>items_dict := items_dict self @ [ci]\<rparr>))))"

text \<open>
  \<^verbatim>\<open>remove(self, product)\<close> and \<^verbatim>\<open>remove_single(self, product)\<close> pass the name
  \<^verbatim>\<open>options\<close> to \<^verbatim>\<open>__index__\<close>. Their parameters are \<^verbatim>\<open>self\<close> and \<^verbatim>\<open>product\<close>, and
  the module binds \<^verbatim>\<open>Decimal\<close>, \<^verbatim>\<open>settings\<close>, \<^verbatim>\<open>module_loading\<close>, \<^verbatim>\<open>carton_settings\<close>,
  \<^verbatim>\<open>CartItem\<close> and \<^verbatim>\<open>Cart\<close>: the scope holds no list of options under any name.
\<close>

definition remove_scope :: "(string \<times> ref list) list" where
  "remove_scope = []"

definition remove :: "ref \<Rightarrow> Cart \<Rightarrow> (error + unit) \<times> Cart" where
  "remove prd self =
     (case load_name remove_scope ''options'' of
        Inl ex \<Rightarrow> (Inl ex, self)
      | Inr opts \<Rightarrow>
          (case index self prd opts of
             Inl ex \<Rightarrow> (Inl ex, self)
           | Inr item_index \<Rightarrow>
               if item_index \<noteq> - 1 then
                 (case list_del (items_dict self) item_index of
                    Inl ex \<Rightarrow> (Inl ex, self)
                  | Inr its \<Rightarrow> update_session (self\<lparr>items_dict := its\<rparr>))
               else (Inr (), self)))"

definition remove_single :: "ref \<Rightarrow> Cart \<Rightarrow> (error + unit) \<times> Cart" where
  "remove_single prd self =
     (case load_name remove_scope ''options'' of
        Inl ex \<Rightarrow> (Inl ex, self)
      | Inr opts \<Rightarrow>
          (case index self prd opts of
             Inl ex \<Rightarrow> (Inl ex, self)
           | Inr item_index \<Rightarrow>
               if item_index \<noteq> - 1 then
                 (case list_get (items_dict self) item_index of
                    Inl ex \<Rightarrow> (Inl ex, self)
                  | Inr it \<Rightarrow>
                      if quantity it \<le> 1 then
                        (case list_del (items_dict self) item_index of
                           Inl ex \<Rightarrow> (Inl ex, self)
                         | Inr its \<Rightarrow> update_session (self\<lparr>items_dict := its\<rparr>))
                      else
                        (case list_modify (items_dict self) item_index
                                (\<lambda>it. it\<lparr>quantity := quantity it - 1\<rparr>) of
                           Inl ex \<Rightarrow> (Inl ex, self)
                         | Inr its \<Rightarrow> update_session (self\<lparr>items_dict := its\<rparr>)))
               else (Inr (), self)))"

definition clear :: "Cart \<Rightarrow> (error + unit) \<times> Cart" where
  "clear self = update_session (self\<lparr>items_dict := []\<rparr>)"

definition set_quantity ::
  "ref \<Rightarrow> pyval \<Rightarrow> ref list \<Rightarrow> Cart \<Rightarrow> (error + unit) \<times> Cart" where
  "set_quantity prd qarg opts self =
     (case py_int qarg of
        Inl ex \<Rightarrow> (Inl ex, self)
      | Inr qty \<Rightarrow>
          if qty < 0 then (Inl ValueError, self)
          else (case index self prd opts of
                  Inl ex \<Rightarrow> (Inl ex, self)
                | Inr item_index \<Rightarrow>
                    if item_index \<noteq> - 1 then
                      (case list_modify (items_dict self) item_index
                              (\<lambda>it. it\<lparr>quantity := qty\<rparr>) of
                         Inl ex \<Rightarrow> (Inl ex, self)
                       | Inr its1 \<Rightarrow>
                           (case list_get its1 item_index of
                              Inl ex \<Rightarrow> (Inl ex, self\<lparr>items_dict := its1\<rparr>)
                            | Inr it \<Rightarrow>
                                if quantity it < 1 then
                                  (case list_del its1 item_index of
                                     Inl ex \<Rightarrow> (Inl ex, self\<lparr>items_dict := its1\<rparr>)
                                   | Inr its2 \<Rightarrow> update_session (self\<lparr>items_dict := its2\<rparr>))
                                else update_session (self\<lparr>items_dict := its1\<rparr>)))
                    else (Inr (), self)))"

subsection \<open>Queries\<close>

definition count :: "Cart \<Rightarrow> int" where
  "count self = sum_list (map quantity (items self))"

definition unique_count :: "Cart \<Rightarrow> int" where
  "unique_count self = int (length (items_dict self))"

definition is_empty :: "Cart \<Rightarrow> bool" where
  "is_empty self = (unique_count self = 0)"

definition total_cart :: "Cart \<Rightarrow> error + int" where
  "total_cart self =
     (case comprehension subtotal (items self) of
        Inl ex \<Rightarrow> Inl ex
      | Inr subtotals \<Rightarrow> Inr (sum_list subtotals))"

section \<open>Sequences of operations and the predicates of the properties\<close>

text \<open>A call of one of the five mutating methods, and a sequence of calls that stops at
  the first exception.\<close>

datatype op =
  Add ref "ref list" pyval
| Remove ref
| RemoveSingle ref
| Clear
| SetQuantity ref pyval "ref list"

fun apply_op :: "op \<Rightarrow> Cart \<Rightarrow> (error + unit) \<times> Cart" where
  "apply_op (Add prd opts qarg) self = add prd opts qarg self"
| "apply_op (Remove prd) self = remove prd self"
| "apply_op (RemoveSingle prd) self = remove_single prd self"
| "apply_op Clear self = clear self"
| "apply_op (SetQuantity prd qarg opts) self = set_quantity prd qarg opts self"

fun run :: "op list \<Rightarrow> Cart \<Rightarrow> error + Cart" where
  "run [] self = Inr self"
| "run (opn # ops) self =
     (case apply_op opn self of
        (Inl ex, self') \<Rightarrow> Inl ex
      | (Inr u, self') \<Rightarrow> run ops self')"

text \<open>The session holds the serialised item list under the cart's key and is flagged
  modified.\<close>

definition session_mirrors :: "Cart \<Rightarrow> bool" where
  "session_mirrors self =
     (case cart_serializable self of
        Inl ex \<Rightarrow> False
      | Inr ds \<Rightarrow>
          data (session self) (session_key self) = Some (SList ds) \<and> modified (session self))"

text \<open>The identity lookup of a \<^verbatim>\<open>set_quantity\<close> or \<^verbatim>\<open>remove\<close> call returns \<open>-1\<close>.\<close>

fun lookup_miss :: "op \<Rightarrow> Cart \<Rightarrow> bool" where
  "lookup_miss (SetQuantity prd qarg opts) self = (index self prd opts = Inr (- 1))"
| "lookup_miss (Remove prd) self =
     (case load_name remove_scope ''options'' of
        Inl ex \<Rightarrow> False
      | Inr opts \<Rightarrow> index self prd opts = Inr (- 1))"
| "lookup_miss (Add prd opts qarg) self = False"
| "lookup_miss (RemoveSingle prd) self = False"
| "lookup_miss Clear self = False"

text \<open>The session \<open>sess\<close> with the sequence of records \<open>recs\<close> stored under \<open>key\<close>.\<close>

definition stored :: "Session \<Rightarrow> string \<Rightarrow> pyobj list \<Rightarrow> Session" where
  "stored sess key recs = sess\<lparr>data := (data sess)(key \<mapsto> SList recs)\<rparr>"

definition positive :: "CartItem \<Rightarrow> bool" where
  "positive it = (1 \<le> quantity it)"

text \<open>The product and the options of an \<^verbatim>\<open>add\<close> call are entities, which have a \<^verbatim>\<open>pk\<close>.\<close>

fun keyed :: "op \<Rightarrow> bool" where
  "keyed (Add prd opts qarg) = (is_Ent prd \<and> list_all is_Ent opts)"
| "keyed (Remove prd) = True"
| "keyed (RemoveSingle prd) = True"
| "keyed Clear = True"
| "keyed (SetQuantity prd qarg opts) = True"

subsection \<open>A shop with one product\<close>

definition entityA :: entity where
  "entityA = \<lparr>pk = 1, price = 10\<rparr>"

definition productA :: ref where
  "productA = Ent entityA"

definition shop_products :: "pyval \<Rightarrow> error + entity" where
  "shop_products v = (if v = PInt 1 then Inr entityA else Inl DoesNotExist)"

definition shop_options :: "pyval \<Rightarrow> error + entity" where
  "shop_options v = Inl DoesNotExist"

definition shop :: env where
  "shop = \<lparr>CART_SESSION_KEY = ''CART'', product_get = shop_products,
            option_get = shop_options\<rparr>"

definition new_session :: Session where
  "new_session = \<lparr>data = Map.empty, modified = False\<rparr>"

definition cart0 :: Cart where
  "cart0 = \<lparr>items_dict = [], session = new_session, session_key = ''CART''\<rparr>"

text \<open>The cart after \<^verbatim>\<open>add(productA, [], 2)\<close> on the empty cart.\<close>

definition cart1 :: Cart where
  "cart1 = snd (add productA [] (PInt 2) cart0)"

text \<open>The records \<^verbatim>\<open>{'product_pk': 1, 'option_pks': [], 'quantity': 2}\<close>, which is what
  \<^verbatim>\<open>to_dict\<close> makes of two \<open>productA\<close>, and \<^verbatim>\<open>{'product_pk': 7, 'option_pks': [],
  'quantity': 1}\<close>, whose product the shop does not have.\<close>

definition recordA :: pyobj where
  "recordA = Dict [(''product_pk'', PInt 1), (''option_pks'', PList []), (''quantity'', PInt 2)]"

definition record_gone :: pyobj where
  "record_gone =
     Dict [(''product_pk'', PInt 7), (''option_pks'', PList []), (''quantity'', PInt 1)]"

text \<open>The record \<^verbatim>\<open>{'product_pk': 1, 'option_pks': [], 'quantity': 0}\<close>.\<close>

definition record_zero :: pyobj where
  "record_zero =
     Dict [(''product_pk'', PInt 1), (''option_pks'', PList []), (''quantity'', PInt 0)]"

text \<open>The cart built over a session that holds \<open>record_zero\<close>, and that cart after
  \<^verbatim>\<open>add(productA, [], 2.5)\<close>.\<close>

definition stale_cart :: Cart where
  "stale_cart = \<lparr>items_dict = [], session = stored new_session ''CART'' [record_zero],
                  session_key = ''CART''\<rparr>"

definition stale_cart_added :: Cart where
  "stale_cart_added = snd (add productA [] (PNum (5 / 2)) stale_cart)"

section \<open>Integers among the values\<close>

lemma py_int_PInt [simp]: "py_int (PInt n) = Inr n"
  by (simp add: PInt_def py_trunc_def)

lemma PInt_eq_iff [simp]: "(PInt a = PInt b) = (a = b)"
  by (simp add: PInt_def)

section \<open>Serialisation and the identity lookup\<close>

text \<open>Whatever \<^verbatim>\<open>to_dict\<close> raises is the \<^verbatim>\<open>AttributeError\<close> of a missing \<^verbatim>\<open>pk\<close>.\<close>

lemma ref_pk_error: "ref_pk r = Inl ex \<Longrightarrow> ex = AttributeError"
  by (cases r) simp_all

lemma comprehension_ref_pk_error:
  "comprehension ref_pk rs = Inl ex \<Longrightarrow> ex = AttributeError"
  by (induction rs) (auto split: sum.splits dest: ref_pk_error)

lemma to_dict_error: "to_dict it = Inl ex \<Longrightarrow> ex = AttributeError"
  by (auto simp: to_dict_def split: sum.splits
           dest: ref_pk_error comprehension_ref_pk_error)

lemma comprehension_to_dict_error:
  "comprehension to_dict its = Inl ex \<Longrightarrow> ex = AttributeError"
  by (induction its) (auto split: sum.splits dest: to_dict_error)

lemma comprehension_Cons:
  "comprehension f (x # xs) = Inr ys \<Longrightarrow> \<exists>y ys'. ys = y # ys'"
  by (auto split: sum.splits)

lemma comprehension_entities:
  "list_all is_Ent rs \<Longrightarrow> \<exists>ks. comprehension ref_pk rs = Inr ks"
proof (induction rs)
  case Nil
  then show ?case by simp
next
  case (Cons r rs)
  then obtain ks where "comprehension ref_pk rs = Inr ks" by auto
  moreover from Cons.prems obtain e where "r = Ent e" by (cases r) simp_all
  ultimately show ?case by simp
qed

lemma to_dict_entities:
  assumes "is_Ent prd" "list_all is_Ent opts"
  shows "\<exists>d. to_dict \<lparr>product = prd, options = opts, quantity = q\<rparr> = Inr d"
proof -
  from assms(1) obtain e where "prd = Ent e" by (cases prd) simp_all
  moreover from assms(2) obtain ks where "comprehension ref_pk opts = Inr ks"
    using comprehension_entities by blast
  ultimately show ?thesis by (simp add: to_dict_def)
qed

text \<open>
  \<^verbatim>\<open>__index__\<close> reads \<^verbatim>\<open>cart_items[i].product_pk\<close>, and \<^verbatim>\<open>cart_items\<close> is the list of
  dictionaries of \<^verbatim>\<open>cart_serializable\<close>: on a cart with an item the first iteration
  raises \<^verbatim>\<open>AttributeError\<close> (unless \<^verbatim>\<open>to_dict\<close> raised it before), on an empty cart the
  loop does not run.
\<close>

lemma getattr_raises: "getattr d name = Inl AttributeError"
  by (cases d) simp_all

lemma index_loop_Cons: "index_loop (d # ds) i prd opts = Inl AttributeError"
  by (simp add: getattr_raises)

lemma index_cases:
  "index self prd opts = (if items_dict self = [] then Inr (- 1) else Inl AttributeError)"
proof (cases "items_dict self")
  case Nil
  then show ?thesis by (simp add: index_def cart_serializable_def items_def)
next
  case (Cons it its)
  show ?thesis
  proof (cases "comprehension to_dict (it # its)")
    case (Inl ex)
    with comprehension_to_dict_error [OF Inl] Cons show ?thesis
      by (simp add: index_def cart_serializable_def items_def)
  next
    case (Inr ds)
    from comprehension_Cons [OF Inr] obtain d ds' where "ds = d # ds'" by blast
    with Inr Cons show ?thesis
      by (simp add: index_def cart_serializable_def items_def index_loop_Cons
            del: index_loop.simps)
  qed
qed

lemma add_cases:
  "add prd opts qarg self =
     (case py_int qarg of
        Inl ex \<Rightarrow> (Inl ex, self)
      | Inr qty \<Rightarrow>
          if qty < 1 then (Inl ValueError, self)
          else if items_dict self = [] then
            update_session
              (self\<lparr>items_dict := [\<lparr>product = prd, options = opts, quantity = qty\<rparr>]\<rparr>)
          else (Inl AttributeError, self))"
  by (simp add: add_def index_cases CartItem_init_def split: sum.splits)

lemma set_quantity_cases:
  "set_quantity prd qarg opts self =
     (case py_int qarg of
        Inl ex \<Rightarrow> (Inl ex, self)
      | Inr qty \<Rightarrow>
          if qty < 0 then (Inl ValueError, self)
          else if items_dict self = [] then (Inr (), self)
          else (Inl AttributeError, self))"
  by (simp add: set_quantity_def index_cases split: sum.splits)

lemma remove_raises: "remove prd self = (Inl NameError, self)"
  by (simp add: remove_def load_name_def remove_scope_def)

lemma remove_single_raises: "remove_single prd self = (Inl NameError, self)"
  by (simp add: remove_single_def load_name_def remove_scope_def)

section \<open>Writing the session\<close>

lemma update_session_items: "items_dict (snd (update_session self)) = items_dict self"
  by (simp add: update_session_def split: sum.splits)

lemma update_session_raises:
  "fst (update_session self) = Inl ex \<Longrightarrow> snd (update_session self) = self"
  by (simp add: update_session_def split: sum.splits)

lemma update_session_mirrors:
  "fst (update_session self) = Inr () \<Longrightarrow> session_mirrors (snd (update_session self))"
  by (simp add: session_mirrors_def update_session_def cart_serializable_def items_def
           split: sum.splits)

lemma update_session_empty:
  "items_dict self = [] \<Longrightarrow> fst (update_session self) = Inr ()"
  by (simp add: update_session_def cart_serializable_def items_def)

section \<open>The shop's carts\<close>

lemma Cart_init_new: "Cart_init shop new_session None = Inr cart0"
  by (simp add: Cart_init_def shop_def new_session_def cart0_def the_session_key_def)

lemma to_dict_A2:
  "to_dict \<lparr>product = productA, options = [], quantity = 2\<rparr> = Inr recordA"
  by (simp add: to_dict_def productA_def entityA_def recordA_def)

lemma first_add:
  "add productA [] (PInt 2) cart0 =
     (Inr (), \<lparr>items_dict = [\<lparr>product = productA, options = [], quantity = 2\<rparr>],
               session = \<lparr>data = [''CART'' \<mapsto> SList [recordA]], modified = True\<rparr>,
               session_key = ''CART''\<rparr>)"
  by (simp add: add_cases cart0_def update_session_def cart_serializable_def items_def
        to_dict_A2 new_session_def)

lemma cart1_eq:
  "cart1 = \<lparr>items_dict = [\<lparr>product = productA, options = [], quantity = 2\<rparr>],
            session = \<lparr>data = [''CART'' \<mapsto> SList [recordA]], modified = True\<rparr>,
            session_key = ''CART''\<rparr>"
  by (simp add: cart1_def first_add)

lemma cart1_items: "items_dict cart1 = [\<lparr>product = productA, options = [], quantity = 2\<rparr>]"
  by (simp add: cart1_eq)

lemma second_add_raises: "add productA [] (PInt 3) cart1 = (Inl AttributeError, cart1)"
  by (simp add: add_cases cart1_items)

section \<open>The rebuild\<close>

text \<open>Every stored record raises \<^verbatim>\<open>AttributeError\<close> at \<^verbatim>\<open>item.product_pk\<close>, the first
  thing the \<^verbatim>\<open>try\<close> body evaluates, and is skipped.\<close>

lemma rebuild_record_raises:
  "rebuild_record e item pc oc = (Inl AttributeError, pc, oc)"
  by (simp add: rebuild_record_def resolve_product_def getattr_raises)

lemma rebuild_loop_skips: "rebuild_loop e recs pc oc its = its"
  by (induction recs arbitrary: pc oc) (simp_all add: rebuild_record_raises)

lemma Cart_init_stored:
  "Cart_init e (stored sess (the_session_key e k) recs) k =
     Inr \<lparr>items_dict = [],
          session = stored sess (the_session_key e k) recs,
          session_key = the_session_key e k\<rparr>"
  by (simp add: Cart_init_def stored_def Let_def rebuild_loop_skips)

lemma Cart_init_items: "Cart_init e sess k = Inr self \<Longrightarrow> items_dict self = []"
  by (auto simp: Cart_init_def Let_def rebuild_loop_skips split: option.splits sval.splits)

lemma shop_key: "the_session_key shop None = ''CART''"
  by (simp add: the_session_key_def shop_def)

section \<open>Quantities\<close>

lemma apply_op_positive:
  assumes "list_all positive (items_dict self)"
  shows "list_all positive (items_dict (snd (apply_op opn self)))"
  using assms
  by (cases opn)
     (auto simp: add_cases set_quantity_cases remove_raises remove_single_raises clear_def
                 update_session_items positive_def
           split: sum.splits)

lemma run_positive:
  assumes "list_all positive (items_dict self)" "run ops self = Inr self'"
  shows "list_all positive (items_dict self')"
  using assms
proof (induction ops arbitrary: self)
  case Nil
  then show ?case by simp
next
  case (Cons opn ops)
  obtain r s where a: "apply_op opn self = (r, s)"
    by (cases "apply_op opn self")
  from apply_op_positive [OF Cons.prems(1), of opn] a
  have p: "list_all positive (items_dict s)" by simp
  from Cons.prems(2) a obtain u where "r = Inr u" "run ops s = Inr self'"
    by (cases r) simp_all
  with Cons.IH [OF p] show ?case by simp
qed

section \<open>The claims\<close>

text \<open>
  C1. The claim: on a cart that already holds an entry for the product and options,
  \<^verbatim>\<open>add\<close> with a quantity of at least 1 increments that entry; from an empty cart,
  \<^verbatim>\<open>add(productA, [], 2)\<close> and then \<^verbatim>\<open>add(productA, [], 3)\<close> give \<^verbatim>\<open>count == 5\<close>,
  \<^verbatim>\<open>unique_count == 1\<close> and \<^verbatim>\<open>total == 50\<close>.
  The code does not do this. On every cart that holds an item, \<^verbatim>\<open>add\<close> with a quantity
  of at least 1 raises \<^verbatim>\<open>AttributeError\<close> in the identity lookup and leaves the cart as
  it was. In the example the first call returns, the second raises, and the cart stays
  at count 2, unique count 1 and total 20.
\<close>

theorem C1_add_to_existing_raises:
  "add prd opts (PInt (1 + int n)) (self\<lparr>items_dict := it # its\<rparr>)
     = (Inl AttributeError, self\<lparr>items_dict := it # its\<rparr>)
   \<and> Cart_init shop new_session None = Inr cart0
   \<and> add productA [] (PInt 2) cart0 = (Inr (), cart1)
   \<and> add productA [] (PInt 3) cart1 = (Inl AttributeError, cart1)
   \<and> count cart1 = 2 \<and> unique_count cart1 = 1 \<and> total_cart cart1 = Inr 20"
proof -
  have g: "add prd opts (PInt (1 + int n)) (self\<lparr>items_dict := it # its\<rparr>)
             = (Inl AttributeError, self\<lparr>items_dict := it # its\<rparr>)"
    by (simp add: add_cases)
  have f: "add productA [] (PInt 2) cart0 = (Inr (), cart1)"
    by (simp add: first_add cart1_eq)
  have q: "count cart1 = 2 \<and> unique_count cart1 = 1 \<and> total_cart cart1 = Inr 20"
    by (simp add: count_def unique_count_def total_cart_def items_def cart1_items
          subtotal_def productA_def entityA_def)
  from g Cart_init_new f second_add_raises q show ?thesis
    by blast
qed

text \<open>
  C2. The claim: after N successful \<^verbatim>\<open>add\<close> calls, a fresh cart built from the same
  session has the same items (by product key, option keys and quantity).
  The code does not do this. The rebuild reads \<^verbatim>\<open>item.product_pk\<close> from the records, and
  the records that \<^verbatim>\<open>update_session\<close> stores are dictionaries: every one of them raises
  \<^verbatim>\<open>AttributeError\<close> inside the \<^verbatim>\<open>try\<close> and is skipped. Whatever records are stored,
  the rebuilt cart is empty; after \<^verbatim>\<open>add(productA, [], 2)\<close> the cart holds one item, the
  session its dictionary, and the cart rebuilt from that session holds nothing.
\<close>

theorem C2_rebuild_of_persisted_cart_is_empty:
  "Cart_init e (stored sess (the_session_key e k) recs) k
     = Inr \<lparr>items_dict = [],
            session = stored sess (the_session_key e k) recs,
            session_key = the_session_key e k\<rparr>
   \<and> items_dict cart1 = [\<lparr>product = productA, options = [], quantity = 2\<rparr>]
   \<and> cart_serializable cart1 = Inr [recordA]
   \<and> data (session cart1) ''CART'' = Some (SList [recordA])
   \<and> Cart_init shop (session cart1) None = Inr (cart1\<lparr>items_dict := []\<rparr>)"
proof -
  have "Cart_init shop (session cart1) None = Inr (cart1\<lparr>items_dict := []\<rparr>)"
    by (simp add: Cart_init_def Let_def shop_key cart1_eq rebuild_loop_skips)
  moreover have "cart_serializable cart1 = Inr [recordA]"
    by (simp add: cart_serializable_def items_def cart1_items to_dict_A2)
  moreover have "data (session cart1) ''CART'' = Some (SList [recordA])"
    by (simp add: cart1_eq)
  ultimately show ?thesis
    by (simp add: Cart_init_stored cart1_items)
qed

text \<open>
  C3. The claim: \<^verbatim>\<open>remove(product, options)\<close> deletes the matching entry when there is
  one and leaves the cart unchanged otherwise, with the options supplied by the caller.
  The code does not do this. \<^verbatim>\<open>remove\<close> takes the product only and loads the unbound
  name \<^verbatim>\<open>options\<close>: every call raises \<^verbatim>\<open>NameError\<close> and the cart stays as it was,
  entry or no entry.
\<close>

theorem C3_remove_raises_NameError:
  "remove prd self = (Inl NameError, self)"
  by (rule remove_raises)

text \<open>
  C4. After a mutating call (\<^verbatim>\<open>add\<close>, \<^verbatim>\<open>remove\<close>, \<^verbatim>\<open>remove_single\<close>, \<^verbatim>\<open>clear\<close>,
  \<^verbatim>\<open>set_quantity\<close>) that returns, the session holds the serialised item list under the
  cart's key and is flagged modified, except that a \<^verbatim>\<open>remove\<close> or \<^verbatim>\<open>set_quantity\<close> call
  whose identity lookup finds no entry leaves the session as it was. In addition no
  \<^verbatim>\<open>remove\<close> call writes to the session at all.
\<close>

theorem C4_session_mirrors_items:
  "(fst (apply_op opn self) = Inr () \<longrightarrow>
      (if lookup_miss opn self then session (snd (apply_op opn self)) = session self
       else session_mirrors (snd (apply_op opn self))))
   \<and> session (snd (remove prd self)) = session self"
proof -
  have "fst (apply_op opn self) = Inr () \<Longrightarrow>
      (if lookup_miss opn self then session (snd (apply_op opn self)) = session self
       else session_mirrors (snd (apply_op opn self)))"
  proof (cases opn)
    case (Add p os q)
    assume "fst (apply_op opn self) = Inr ()"
    with Add show ?thesis
      by (auto simp: add_cases update_session_mirrors split: sum.splits if_splits)
  next
    case (Remove p)
    assume "fst (apply_op opn self) = Inr ()"
    with Remove show ?thesis by (simp add: remove_raises)
  next
    case (RemoveSingle p)
    assume "fst (apply_op opn self) = Inr ()"
    with RemoveSingle show ?thesis by (simp add: remove_single_raises)
  next
    case Clear
    assume "fst (apply_op opn self) = Inr ()"
    with Clear show ?thesis by (simp add: clear_def update_session_mirrors)
  next
    case (SetQuantity p q os)
    assume "fst (apply_op opn self) = Inr ()"
    with SetQuantity show ?thesis
      by (auto simp: set_quantity_cases index_cases split: sum.splits if_splits)
  qed
  then show ?thesis by (simp add: remove_raises)
qed

theorem C4_witness:
  "fst (apply_op (Add productA [] (PInt 2)) cart0) = Inr ()
   \<and> session_mirrors (snd (apply_op (Add productA [] (PInt 2)) cart0))
   \<and> fst (apply_op Clear cart1) = Inr ()
   \<and> session_mirrors (snd (apply_op Clear cart1))
   \<and> fst (apply_op (SetQuantity productA (PInt 1) []) cart0) = Inr ()
   \<and> session (snd (apply_op (SetQuantity productA (PInt 1) []) cart0)) = session cart0"
proof -
  have a: "fst (apply_op (Add productA [] (PInt 2)) cart0) = Inr ()"
    by (simp add: first_add)
  have c: "fst (apply_op Clear cart1) = Inr ()"
    by (simp add: clear_def update_session_empty)
  have s: "fst (apply_op (SetQuantity productA (PInt 1) []) cart0) = Inr ()"
    by (simp add: set_quantity_cases cart0_def)
  have m: "lookup_miss (SetQuantity productA (PInt 1) []) cart0"
    by (simp add: index_cases cart0_def)
  show ?thesis
    using a c s m
      C4_session_mirrors_items [of "Add productA [] (PInt 2)" cart0 productA]
      C4_session_mirrors_items [of Clear cart1 productA]
      C4_session_mirrors_items [of "SetQuantity productA (PInt 1) []" cart0 productA]
    by simp
qed

text \<open>
  C5. The claim: on a cart that holds an entry for product p with no options,
  \<^verbatim>\<open>set_quantity(p, 0)\<close> removes the entry and persists the removal.
  The code does not do this. On every cart that holds an item, \<^verbatim>\<open>set_quantity\<close> with
  quantity 0 and no options raises \<^verbatim>\<open>AttributeError\<close> in the identity lookup; the item
  list, with the entry in it, and the session stay as they were.
\<close>

theorem C5_set_quantity_zero_raises:
  "set_quantity prd (PInt 0) [] (self\<lparr>items_dict := it # its\<rparr>)
     = (Inl AttributeError, self\<lparr>items_dict := it # its\<rparr>)"
  by (simp add: set_quantity_cases)

text \<open>
  C6. The claim: \<^verbatim>\<open>remove_single\<close> applied q times to an entry of quantity q removes it,
  and applied fewer times only decrements the quantity.
  The code does not do this. \<^verbatim>\<open>remove_single\<close> loads the unbound name \<^verbatim>\<open>options\<close> as
  \<^verbatim>\<open>remove\<close> does: every call raises \<^verbatim>\<open>NameError\<close> and changes nothing, so after any
  number of calls the entry is there with its quantity.
\<close>

theorem C6_remove_single_raises_NameError:
  "remove_single prd self = (Inl NameError, self)"
  by (rule remove_single_raises)

text \<open>
  C7. The claim: the construction lets no exception of a record escape; a record whose
  product key or option key does not resolve is skipped, while the remaining records are
  still rebuilt.
  The code does not do the last part. The session below holds the record that the cart
  wrote for two \<open>productA\<close>, whose key 1 the shop resolves, and a record for product 7,
  which the shop does not have. The construction returns a cart, but an empty one: the
  resolvable record raises \<^verbatim>\<open>AttributeError\<close> at \<^verbatim>\<open>item.product_pk\<close> as the other one
  does, and is skipped with it.
\<close>

theorem C7_resolvable_record_is_not_rebuilt:
  "to_dict \<lparr>product = productA, options = [], quantity = 2\<rparr> = Inr recordA
   \<and> product_get shop (PInt 1) = Inr entityA
   \<and> product_get shop (PInt 7) = Inl DoesNotExist
   \<and> Cart_init shop (stored new_session ''CART'' [recordA, record_gone]) None
       = Inr \<lparr>items_dict = [],
              session = stored new_session ''CART'' [recordA, record_gone],
              session_key = ''CART''\<rparr>"
proof -
  have "Cart_init shop (stored new_session ''CART'' [recordA, record_gone]) None
       = Inr \<lparr>items_dict = [],
              session = stored new_session ''CART'' [recordA, record_gone],
              session_key = ''CART''\<rparr>"
    using Cart_init_stored [of shop new_session None "[recordA, record_gone]"]
    by (simp add: shop_key)
  then show ?thesis
    by (simp add: to_dict_A2 shop_def shop_products_def)
qed

text \<open>
  C8. \<^verbatim>\<open>add\<close> with a quantity that coerces to an integer below 1 raises \<^verbatim>\<open>ValueError\<close>,
  and \<^verbatim>\<open>set_quantity\<close> with a quantity that coerces to an integer below 0 raises
  \<^verbatim>\<open>ValueError\<close>; in both cases the item list and the session are as before the call.
\<close>

theorem C8_invalid_quantity_fails_fast:
  "py_int qarg = Inr n \<Longrightarrow>
     (n < 1 \<longrightarrow> add prd opts qarg self = (Inl ValueError, self)) \<and>
     (n < 0 \<longrightarrow> set_quantity prd qarg opts self = (Inl ValueError, self))"
  by (simp add: add_def set_quantity_def)

theorem C8_witness:
  "py_int (PInt (- 1)) = Inr (- 1)
   \<and> add productA [] (PInt (- 1)) cart1 = (Inl ValueError, cart1)
   \<and> set_quantity productA (PInt (- 1)) [] cart1 = (Inl ValueError, cart1)
   \<and> add productA [] (PInt 0) cart1 = (Inl ValueError, cart1)
   \<and> py_int (PNum (1 / 2)) = Inr 0
   \<and> add productA [] (PNum (1 / 2)) cart1 = (Inl ValueError, cart1)"
proof -
  have a: "py_int (PInt (- 1)) = Inr (- 1)" by simp
  have b: "py_int (PInt 0) = Inr 0" by simp
  have c: "py_int (PNum (1 / 2)) = Inr 0" by (simp add: py_trunc_def floor_eq_iff)
  show ?thesis
    using a c C8_invalid_quantity_fails_fast [OF a, of productA "[]" cart1]
          C8_invalid_quantity_fails_fast [OF b, of productA "[]" cart1]
          C8_invalid_quantity_fails_fast [OF c, of productA "[]" cart1]
    by simp
qed

text \<open>
  C9. In every cart built from a session and then changed by a sequence of successful
  operations, every item has a quantity of at least 1; and one more call, whether it
  returns or raises, leaves no item with a quantity below 1 either. The rebuild adds no
  item at all (every stored record is skipped, see C2), \<^verbatim>\<open>add\<close> stores the coerced
  quantity only after checking that it is at least 1, and no other call changes a
  quantity.
\<close>

theorem C9_quantities_stay_positive:
  assumes "Cart_init e sess k = Inr self"
    and "run ops self = Inr self'"
  shows "list_all positive (items_dict self')
       \<and> list_all positive (items_dict (snd (apply_op opn self')))"
proof -
  from Cart_init_items [OF assms(1)] have "list_all positive (items_dict self)"
    by simp
  then have "list_all positive (items_dict self')"
    using assms(2) by (rule run_positive)
  then show ?thesis
    by (simp add: apply_op_positive)
qed

theorem C9_witness:
  "Cart_init shop (stored new_session ''CART'' [record_zero]) None = Inr stale_cart
   \<and> run [Add productA [] (PNum (5 / 2))] stale_cart = Inr stale_cart_added
   \<and> map quantity (items_dict stale_cart_added) = [2]
   \<and> list_all positive (items_dict stale_cart_added)
   \<and> list_all positive
       (items_dict (snd (apply_op (SetQuantity productA (PInt 0) []) stale_cart_added)))"
proof -
  have i: "Cart_init shop (stored new_session ''CART'' [record_zero]) None = Inr stale_cart"
    using Cart_init_stored [of shop new_session None "[record_zero]"]
    by (simp add: shop_key stale_cart_def)
  have t: "py_trunc (5 / 2) = 2"
    by (simp add: py_trunc_def floor_eq_iff)
  have a: "fst (add productA [] (PNum (5 / 2)) stale_cart) = Inr ()"
    by (simp add: add_cases t stale_cart_def update_session_def cart_serializable_def
          items_def to_dict_def productA_def)
  have r: "run [Add productA [] (PNum (5 / 2))] stale_cart = Inr stale_cart_added"
    using a by (cases "add productA [] (PNum (5 / 2)) stale_cart")
      (simp add: stale_cart_added_def)
  have m: "map quantity (items_dict stale_cart_added) = [2]"
    by (simp add: stale_cart_added_def add_cases t stale_cart_def update_session_items)
  from C9_quantities_stay_positive
         [OF i r, of "SetQuantity productA (PInt 0) []"] i r m
  show ?thesis by simp
qed

text \<open>
  C10. The claim: when a call of \<^verbatim>\<open>add\<close>, \<^verbatim>\<open>remove\<close>, \<^verbatim>\<open>remove_single\<close> or
  \<^verbatim>\<open>set_quantity\<close> raises, for whatever reason, the item list and the session are as
  before the call.
  This fails for one kind of call: \<^verbatim>\<open>add\<close> on an empty cart appends the new item and
  then writes the session, and when the product or an option has no \<^verbatim>\<open>pk\<close>, \<^verbatim>\<open>to_dict\<close>
  raises there, with the item already in the list. What holds: when a call of \<^verbatim>\<open>remove\<close>,
  \<^verbatim>\<open>remove_single\<close> or \<^verbatim>\<open>set_quantity\<close> raises, or a call of \<^verbatim>\<open>add\<close> whose product and
  options are entities with a \<^verbatim>\<open>pk\<close>, for whatever reason (the coercion of the quantity,
  the check of the quantity, the identity lookup, the unbound name), the cart is exactly
  as before the call: the same item list and the same session.
\<close>

theorem C10_raising_call_changes_nothing:
  "keyed opn \<Longrightarrow> fst (apply_op opn self) = Inl ex \<Longrightarrow> snd (apply_op opn self) = self"
proof (cases opn)
  case (Add p os q)
  assume k: "keyed opn" and f: "fst (apply_op opn self) = Inl ex"
  show ?thesis
  proof (cases "py_int q")
    case (Inl e')
    with Add show ?thesis by (simp add: add_cases)
  next
    case (Inr qty)
    from k Add obtain d where
      d: "to_dict \<lparr>product = p, options = os, quantity = qty\<rparr> = Inr d"
      using to_dict_entities [of p os qty] by auto
    have "fst (update_session
            (self\<lparr>items_dict := [\<lparr>product = p, options = os, quantity = qty\<rparr>]\<rparr>)) = Inr ()"
      by (simp add: update_session_def cart_serializable_def items_def d)
    with f Add Inr show ?thesis
      by (auto simp: add_cases split: if_splits)
  qed
next
  case (Remove p)
  then show ?thesis by (simp add: remove_raises)
next
  case (RemoveSingle p)
  then show ?thesis by (simp add: remove_single_raises)
next
  case Clear
  assume "fst (apply_op opn self) = Inl ex"
  moreover have "fst (update_session (self\<lparr>items_dict := []\<rparr>)) = Inr ()"
    by (simp add: update_session_empty)
  ultimately show ?thesis using Clear by (simp add: clear_def)
next
  case (SetQuantity p q os)
  then show ?thesis
    by (auto simp: set_quantity_cases split: sum.splits if_splits)
qed

theorem C10_witness:
  "keyed (Add productA [] (PInt 3))
   \<and> fst (apply_op (Add productA [] (PInt 3)) cart1) = Inl AttributeError
   \<and> snd (apply_op (Add productA [] (PInt 3)) cart1) = cart1
   \<and> keyed (Add productA [] PNone)
   \<and> fst (apply_op (Add productA [] PNone) cart0) = Inl TypeError
   \<and> snd (apply_op (Add productA [] PNone) cart0) = cart0
   \<and> keyed (SetQuantity productA PNone [])
   \<and> fst (apply_op (SetQuantity productA PNone []) cart1) = Inl TypeError
   \<and> snd (apply_op (SetQuantity productA PNone []) cart1) = cart1
   \<and> keyed (RemoveSingle productA)
   \<and> fst (apply_op (RemoveSingle productA) cart1) = Inl NameError
   \<and> snd (apply_op (RemoveSingle productA) cart1) = cart1
   \<and> keyed (Add productA [] (PStr ''abc''))
   \<and> fst (apply_op (Add productA [] (PStr ''abc'')) cart0) = Inl ValueError
   \<and> snd (apply_op (Add productA [] (PStr ''abc'')) cart0) = cart0"
proof -
  have ka: "keyed (Add productA [] (PInt 3))" "keyed (Add productA [] PNone)"
    by (simp_all add: productA_def)
  have ks: "keyed (SetQuantity productA PNone [])" "keyed (RemoveSingle productA)"
    by simp_all
  have a: "fst (apply_op (Add productA [] (PInt 3)) cart1) = Inl AttributeError"
    by (simp add: second_add_raises)
  have n: "fst (apply_op (Add productA [] PNone) cart0) = Inl TypeError"
    by (simp add: add_cases)
  have s: "fst (apply_op (SetQuantity productA PNone []) cart1) = Inl TypeError"
    by (simp add: set_quantity_cases)
  have r: "fst (apply_op (RemoveSingle productA) cart1) = Inl NameError"
    by (simp add: remove_single_raises)
  have kv: "keyed (Add productA [] (PStr ''abc''))"
    by (simp add: productA_def)
  have p: "py_int (PStr ''abc'') = Inl ValueError"
    by (simp add: parse_int_def strip_def is_space_def int_digits_def is_digit_def)
  have v: "fst (apply_op (Add productA [] (PStr ''abc'')) cart0) = Inl ValueError"
    using p by (simp add: add_cases del: py_int.simps)
  show ?thesis
    using ka ks kv a n s r v
      C10_raising_call_changes_nothing [OF ka(1) a]
      C10_raising_call_changes_nothing [OF ka(2) n]
      C10_raising_call_changes_nothing [OF ks(1) s]
      C10_raising_call_changes_nothing [OF ks(2) r]
      C10_raising_call_changes_nothing [OF kv v]
    by simp
qed

theorem C10_counterexample:
  "items_dict cart0 = []
   \<and> add productA [Val (PInt 3)] (PInt 1) cart0
       = (Inl AttributeError,
          cart0\<lparr>items_dict :=
                  [\<lparr>product = productA, options = [Val (PInt 3)], quantity = 1\<rparr>]\<rparr>)"
  by (simp add: add_cases cart0_def update_session_def cart_serializable_def items_def
        to_dict_def productA_def)

end
